theory Spec2Isabelle
  imports Complex_Main
begin

section \<open>Extrapolation estimator of benchq: the embedding\<close>

text \<open>
  The source is \<^verbatim>\<open>src/benchq/resource_estimation/graph/extrapolation_estimator.py\<close>.
  Its numbers are numpy float64 values. The embedding computes with exact reals and keeps
  the three non-finite values of float64 where the code can produce them (a division by
  zero, a logarithm of a non-positive number). It follows the control flow and the
  exceptions of the code. It does not follow the rounding and the range of float64: a
  fitted coefficient, a residual, a projection or an R-squared of the model is the exact
  value that the code approximates, and a number beyond the range of float64 stays a
  number. The properties below therefore say which branch the code takes and which
  exception it raises; where they name a computed number, at a concrete input, it is the
  number of the model.
\<close>

subsection \<open>Exceptions and float64 values\<close>

datatype error =
    TypeError string
  | IndexError
  | LinAlgError
  | ValueError string
  | OverflowError
  | AssertionError

datatype npfloat = Fin real | PInf | NInf | NaN

text \<open>\<^verbatim>\<open>np.log\<close>: no exception outside the domain, numpy warns and yields
  \<^verbatim>\<open>-inf\<close> at zero and \<^verbatim>\<open>nan\<close> below it.\<close>

definition np_log :: "real \<Rightarrow> npfloat" where
  "np_log v = (if 0 < v then Fin (ln v) else if v = 0 then NInf else NaN)"

text \<open>Division of two finite float64 values: no \<^verbatim>\<open>ZeroDivisionError\<close>, numpy warns
  and yields \<^verbatim>\<open>nan\<close> for \<^verbatim>\<open>0/0\<close> and an infinity otherwise.\<close>

definition np_div :: "real \<Rightarrow> real \<Rightarrow> npfloat" where
  "np_div a b =
     (if b \<noteq> 0 then Fin (a / b)
      else if a = 0 then NaN
      else if 0 < a then PInf else NInf)"

text \<open>\<^verbatim>\<open>k - v\<close> for a finite \<open>k\<close>.\<close>

fun np_rsub :: "real \<Rightarrow> npfloat \<Rightarrow> npfloat" where
  "np_rsub k (Fin v) = Fin (k - v)"
| "np_rsub k PInf = NInf"
| "np_rsub k NInf = PInf"
| "np_rsub k NaN = NaN"

text \<open>\<^verbatim>\<open>m * v\<close> and \<^verbatim>\<open>v + c\<close> for finite \<open>m\<close> and \<open>c\<close>.\<close>

fun np_mul :: "real \<Rightarrow> npfloat \<Rightarrow> npfloat" where
  "np_mul m (Fin v) = Fin (m * v)"
| "np_mul m PInf = (if 0 < m then PInf else if m < 0 then NInf else NaN)"
| "np_mul m NInf = (if 0 < m then NInf else if m < 0 then PInf else NaN)"
| "np_mul m NaN = NaN"

fun np_add :: "npfloat \<Rightarrow> real \<Rightarrow> npfloat" where
  "np_add (Fin v) c = Fin (v + c)"
| "np_add PInf c = PInf"
| "np_add NInf c = NInf"
| "np_add NaN c = NaN"

text \<open>\<^verbatim>\<open>math.ceil\<close> raises on the non-finite values.\<close>

fun py_ceil :: "npfloat \<Rightarrow> error + int" where
  "py_ceil (Fin v) = Inr \<lceil>v\<rceil>"
| "py_ceil PInf = Inl OverflowError"
| "py_ceil NInf = Inl OverflowError"
| "py_ceil NaN = Inl (ValueError ''cannot convert float NaN to integer'')"


text \<open>\<^verbatim>\<open>round(v, ndigits)\<close>: to the nearest multiple of \<open>10^-ndigits\<close>, a tie to the
  even neighbour.\<close>

definition rint :: "real \<Rightarrow> int" where
  "rint v =
     (let f = \<lfloor>v\<rfloor>; d = v - of_int f
      in if d < 1 / 2 then f
         else if 1 / 2 < d then f + 1
         else if even f then f else f + 1)"

definition py_round :: "real \<Rightarrow> nat \<Rightarrow> real" where
  "py_round v ndigits = of_int (rint (v * 10 ^ ndigits)) / 10 ^ ndigits"

subsection \<open>\<^verbatim>\<open>np.var\<close> and \<^verbatim>\<open>np.polyfit(x, y, 1, full=True)\<close>\<close>

definition mean :: "real list \<Rightarrow> real" where
  "mean ys = sum_list ys / real (length ys)"

text \<open>The population variance (divisor \<open>n\<close>). The callers reach it with a non-empty
  \<open>ys\<close> only: \<^verbatim>\<open>np.polyfit\<close> has refused an empty one before.\<close>

definition np_var :: "real list \<Rightarrow> real" where
  "np_var ys = (\<Sum>y\<leftarrow>ys. (y - mean ys)\<^sup>2) / real (length ys)"

fun finite_values :: "npfloat list \<Rightarrow> real list option" where
  "finite_values [] = Some []"
| "finite_values (Fin v # vs) = map_option ((#) v) (finite_values vs)"
| "finite_values (_ # vs) = None"

definition all_equal :: "real list \<Rightarrow> bool" where
  "all_equal xs = list_all (\<lambda>v. v = hd xs) xs"

definition all_zero :: "real list \<Rightarrow> bool" where
  "all_zero xs = list_all (\<lambda>v. v = 0) xs"

definition slope :: "real list \<Rightarrow> real list \<Rightarrow> real" where
  "slope xs ys =
     (let n = real (length xs)
      in (n * (\<Sum>(x, y)\<leftarrow>zip xs ys. x * y) - sum_list xs * sum_list ys)
           / (n * (\<Sum>x\<leftarrow>xs. x\<^sup>2) - (sum_list xs)\<^sup>2))"

definition intercept :: "real list \<Rightarrow> real list \<Rightarrow> real" where
  "intercept xs ys = (sum_list ys - slope xs ys * sum_list xs) / real (length xs)"

definition residual_sum :: "real \<Rightarrow> real \<Rightarrow> real list \<Rightarrow> real list \<Rightarrow> real" where
  "residual_sum m c xs ys = (\<Sum>(x, y)\<leftarrow>zip xs ys. (y - (m * x + c))\<^sup>2)"

text \<open>
  The least-squares line through the points, as \<^verbatim>\<open>numpy.linalg.lstsq\<close> returns it on
  the columns \<open>x\<close> and \<open>1\<close>:
  \<^item> the design matrix has rank 2 exactly when the \<open>x\<close> are not all equal; then the
    solution is the one of the normal equations;
  \<^item> with all \<open>x\<close> equal the rank is 1 and the solution is the one of minimum norm of
    the column-scaled system, \<open>(mean y / (2 x), mean y / 2)\<close>;
  \<^item> the array of residuals is empty when the rank is below 2 or when there are no more
    points than coefficients (here: at most 2 points), as numpy documents;
  \<^item> a column of zeros is scaled by \<open>0/0\<close> and a non-finite \<open>x\<close> stays non-finite: the
    LAPACK driver gets a matrix with \<^verbatim>\<open>nan\<close> and numpy raises \<^verbatim>\<open>LinAlgError\<close>.
  The coefficients and the residual are the exact ones. Those of numpy carry the rounding
  of the singular value decomposition: on points that lie exactly on a line its residual
  is a small non-negative number that need not be 0, and its rank is the number of
  singular values above a threshold.
\<close>

definition lstsq_line :: "real list \<Rightarrow> real list \<Rightarrow> error + (real \<times> real) \<times> real list" where
  "lstsq_line xs ys =
     (if all_zero xs then Inl LinAlgError
      else if all_equal xs then Inr ((mean ys / (2 * hd xs), mean ys / 2), [])
      else
        (let m = slope xs ys; c = intercept xs ys
         in Inr ((m, c), if length xs \<le> 2 then [] else [residual_sum m c xs ys])))"

definition polyfit :: "npfloat list \<Rightarrow> real list \<Rightarrow> error + (real \<times> real) \<times> real list" where
  "polyfit x y =
     (if x = [] then Inl (TypeError ''expected non-empty vector for x'')
      else if length x \<noteq> length y then Inl (TypeError ''expected x and y to have same length'')
      else (case finite_values x of
              None \<Rightarrow> Inl LinAlgError
            | Some xs \<Rightarrow> lstsq_line xs y))"

subsection \<open>The two fits\<close>

text \<open>\<^verbatim>\<open>_get_linear_extrapolation\<close> (lines 131 to 138): the residual is read at index 0
  before the coefficients are used. The quotient, the product and the sum are those of
  the exact values; the code computes them in float64, where a target beyond the range
  raises \<^verbatim>\<open>OverflowError\<close> and a large one is rounded.\<close>

definition get_linear_extrapolation :: "real list \<Rightarrow> real list \<Rightarrow> real \<Rightarrow> error + int \<times> npfloat" where
  "get_linear_extrapolation x y steps_to_extrapolate_to =
     (case polyfit (map Fin x) y of
        Inl e \<Rightarrow> Inl e
      | Inr ((m, c), sum_of_residuals) \<Rightarrow>
          (case sum_of_residuals of
             [] \<Rightarrow> Inl IndexError
           | r0 # _ \<Rightarrow>
               (let r_squared = np_rsub 1 (np_div r0 (real (length y) * np_var y));
                    rounded_point = py_round (m * steps_to_extrapolate_to + c) 5
                in Inr (\<lceil>rounded_point\<rceil>, r_squared))))"

text \<open>\<^verbatim>\<open>_get_logarithmic_extrapolation\<close> (lines 141 to 149): the same on \<^verbatim>\<open>np.log(x)\<close>;
  the value called \<^verbatim>\<open>rounded_point\<close> is not rounded here, so the ceiling is taken of the
  fitted value itself (of its float64 approximation, in the code).\<close>

definition get_logarithmic_extrapolation :: "real list \<Rightarrow> real list \<Rightarrow> real \<Rightarrow> error + int \<times> npfloat" where
  "get_logarithmic_extrapolation x y steps_to_extrapolate_to =
     (let log_x = map np_log x
      in case polyfit log_x y of
           Inl e \<Rightarrow> Inl e
         | Inr ((m, c), sum_of_residuals) \<Rightarrow>
             (case sum_of_residuals of
                [] \<Rightarrow> Inl IndexError
              | r0 # _ \<Rightarrow>
                  (let r_squared = np_rsub 1 (np_div r0 (real (length y) * np_var y));
                       rounded_point = np_add (np_mul m (np_log steps_to_extrapolate_to)) c
                   in case py_ceil rounded_point of
                        Inl e \<Rightarrow> Inl e
                      | Inr p \<Rightarrow> Inr (p, r_squared))))"

subsection \<open>Records of the estimator\<close>

text \<open>
  The classes \<^verbatim>\<open>QuantumProgram\<close>, \<^verbatim>\<open>AlgorithmImplementation\<close>, \<^verbatim>\<open>GraphData\<close> and
  \<^verbatim>\<open>ResourceInfo\<close> are imported by the source file and declared elsewhere. Their records
  hold the attributes that the source file reads and writes. Several classes have
  attributes of the same name, so each record's fields carry a prefix: \<open>qp_\<close> for
  \<^verbatim>\<open>QuantumProgram\<close>, \<open>gd_\<close> for \<^verbatim>\<open>GraphData\<close>, \<open>ri_\<close> for \<^verbatim>\<open>ResourceInfo\<close>.
\<close>

record QuantumProgram =
  qp_steps :: int
  qp_n_nodes :: int
  qp_n_t_gates :: int
  qp_n_rotation_gates :: int

text \<open>The attribute \<^verbatim>\<open>program\<close> of an algorithm description is tested with
  \<^verbatim>\<open>isinstance\<close>: it is a \<^verbatim>\<open>QuantumProgram\<close> or an object of another class.\<close>

datatype 'o program_object = IsQuantumProgram QuantumProgram | OtherObject 'o

record ('o, 'r) AlgorithmImplementation =
  program :: "'o program_object"
  remainder :: 'r

record GraphData =
  gd_max_graph_degree :: int
  gd_n_nodes :: int
  gd_n_t_gates :: int
  gd_n_rotation_gates :: int
  gd_n_measurement_steps :: int

record ExtrapolatedGraphData = GraphData +
  max_graph_degree_r_squared :: npfloat
  gd_n_measurement_steps_r_squared :: npfloat

text \<open>The two metrics that are fitted are numbers (the arrays built from them are float64
  arrays); the other attributes pass through the source file unchanged.\<close>

record ResourceInfo =
  ri_n_logical_qubits :: real
  ri_n_measurement_steps :: real
  ri_n_nodes :: int
  ri_n_t_gates :: int
  ri_n_rotation_gates :: int
  ri_code_distance :: int
  ri_logical_error_rate :: real
  ri_total_time_in_seconds :: real
  ri_n_physical_qubits :: int
  ri_decoder_total_energy_consumption :: "real option"
  ri_decoder_power :: "real option"
  ri_decoder_area :: "real option"
  ri_max_decodable_distance :: "int option"

record ExtrapolatedResourceInfo = ResourceInfo +
  n_logical_qubits_r_squared :: npfloat
  n_measurement_steps_r_squared :: npfloat
  data_used_to_extrapolate :: "ResourceInfo list"
  steps_to_extrapolate_to :: int

text \<open>The attributes that \<^verbatim>\<open>ExtrapolationResourceEstimator.__init__\<close> adds; the hardware
  model, the decoder model and the distillation widget of the superclass are read by the
  superclass's \<^verbatim>\<open>_estimate_resources_from_graph_data\<close> only.\<close>

record ExtrapolationResourceEstimator =
  steps_to_extrapolate_from :: "int list"
  n_measurement_steps_fit_type :: string

subsection \<open>The estimator's methods\<close>

definition fit_type_message :: "string \<Rightarrow> string" where
  "fit_type_message fit_type =
     ''n_measurement_steps_fit_type must be either 'logarithmic' or 'linear', not '' @ fit_type"

text \<open>\<^verbatim>\<open>_get_extrapolated_graph_data\<close> (lines 50 to 96).\<close>

definition get_extrapolated_graph_data ::
  "ExtrapolationResourceEstimator \<Rightarrow> ResourceInfo list \<Rightarrow> QuantumProgram
     \<Rightarrow> error + ExtrapolatedGraphData" where
  "get_extrapolated_graph_data self data prog =
     (let target = real_of_int (qp_steps prog);
          x = map real_of_int (steps_to_extrapolate_from self)
      in case get_linear_extrapolation x (map ri_n_logical_qubits data) target of
           Inl e \<Rightarrow> Inl e
         | Inr (max_graph_degree, max_graph_degree_r2) \<Rightarrow>
             (case (if n_measurement_steps_fit_type self = ''logarithmic''
                    then get_logarithmic_extrapolation x (map ri_n_measurement_steps data) target
                    else if n_measurement_steps_fit_type self = ''linear''
                    then get_linear_extrapolation x (map ri_n_measurement_steps data) target
                    else Inl (ValueError (fit_type_message (n_measurement_steps_fit_type self))))
              of
                Inl e \<Rightarrow> Inl e
              | Inr (n_measurement_steps, n_measurement_steps_r2) \<Rightarrow>
                  Inr \<lparr> gd_max_graph_degree = max_graph_degree,
                        gd_n_nodes = qp_n_t_gates prog + qp_n_rotation_gates prog,
                        gd_n_t_gates = qp_n_t_gates prog,
                        gd_n_rotation_gates = qp_n_rotation_gates prog,
                        gd_n_measurement_steps = n_measurement_steps,
                        max_graph_degree_r_squared = max_graph_degree_r2,
                        gd_n_measurement_steps_r_squared = n_measurement_steps_r2 \<rparr>))"

text \<open>\<^verbatim>\<open>estimate_via_extrapolation\<close> (lines 98 to 128). The inherited method
  \<^verbatim>\<open>_estimate_resources_from_graph_data\<close> is not in the source file: it is the parameter
  \<open>estimate_resources_from_graph_data\<close>, any function from the graph data and the algorithm
  description to a resource report or an exception.\<close>

definition estimate_via_extrapolation ::
  "(ExtrapolatedGraphData \<Rightarrow> ('o, 'r) AlgorithmImplementation \<Rightarrow> error + ResourceInfo)
     \<Rightarrow> ExtrapolationResourceEstimator \<Rightarrow> ('o, 'r) AlgorithmImplementation
     \<Rightarrow> ResourceInfo list \<Rightarrow> error + ExtrapolatedResourceInfo" where
  "estimate_via_extrapolation estimate_resources_from_graph_data self algorithm_description data =
     (case program algorithm_description of
        OtherObject _ \<Rightarrow> Inl AssertionError
      | IsQuantumProgram prog \<Rightarrow>
          (case get_extrapolated_graph_data self data prog of
             Inl e \<Rightarrow> Inl e
           | Inr extrapolated_info \<Rightarrow>
               (case estimate_resources_from_graph_data extrapolated_info algorithm_description of
                  Inl e \<Rightarrow> Inl e
                | Inr resource_info \<Rightarrow>
                    Inr \<lparr> ri_n_logical_qubits = ri_n_logical_qubits resource_info,
                          ri_n_measurement_steps = ri_n_measurement_steps resource_info,
                          ri_n_nodes = qp_n_nodes prog,
                          ri_n_t_gates = ri_n_t_gates resource_info,
                          ri_n_rotation_gates = ri_n_rotation_gates resource_info,
                          ri_code_distance = ri_code_distance resource_info,
                          ri_logical_error_rate = ri_logical_error_rate resource_info,
                          ri_total_time_in_seconds = ri_total_time_in_seconds resource_info,
                          ri_n_physical_qubits = ri_n_physical_qubits resource_info,
                          ri_decoder_total_energy_consumption =
                            ri_decoder_total_energy_consumption resource_info,
                          ri_decoder_power = ri_decoder_power resource_info,
                          ri_decoder_area = ri_decoder_area resource_info,
                          ri_max_decodable_distance = ri_max_decodable_distance resource_info,
                          n_logical_qubits_r_squared = max_graph_degree_r_squared extrapolated_info,
                          n_measurement_steps_r_squared =
                            gd_n_measurement_steps_r_squared extrapolated_info,
                          data_used_to_extrapolate = data,
                          steps_to_extrapolate_to = qp_steps prog \<rparr>)))"

subsection \<open>Sample data for the concrete evaluations\<close>

text \<open>A measured report with the two fitted metrics set and every other attribute at a
  default value.\<close>

definition sample :: "real \<Rightarrow> real \<Rightarrow> ResourceInfo" where
  "sample n_logical_qubits n_measurement_steps =
     \<lparr> ri_n_logical_qubits = n_logical_qubits,
       ri_n_measurement_steps = n_measurement_steps,
       ri_n_nodes = 0, ri_n_t_gates = 0, ri_n_rotation_gates = 0, ri_code_distance = 0,
       ri_logical_error_rate = 0, ri_total_time_in_seconds = 0, ri_n_physical_qubits = 0,
       ri_decoder_total_energy_consumption = None, ri_decoder_power = None,
       ri_decoder_area = None, ri_max_decodable_distance = None \<rparr>"

text \<open>Three reports measured at 1, 2 and 4 steps.\<close>

definition samples :: "ResourceInfo list" where
  "samples = [sample 10 1, sample 20 2, sample 40 4]"

definition estimator :: "string \<Rightarrow> ExtrapolationResourceEstimator" where
  "estimator fit_type =
     \<lparr> steps_to_extrapolate_from = [1, 2, 4], n_measurement_steps_fit_type = fit_type \<rparr>"

definition target :: QuantumProgram where
  "target = \<lparr> qp_steps = 8, qp_n_nodes = 100, qp_n_t_gates = 7, qp_n_rotation_gates = 5 \<rparr>"

definition description :: "(unit, unit) AlgorithmImplementation" where
  "description = \<lparr> program = IsQuantumProgram target, remainder = () \<rparr>"

text \<open>A stand-in for the inherited \<^verbatim>\<open>_estimate_resources_from_graph_data\<close>: it copies the
  counts of the graph data into its report.\<close>

definition copying_estimate ::
  "ExtrapolatedGraphData \<Rightarrow> (unit, unit) AlgorithmImplementation \<Rightarrow> error + ResourceInfo" where
  "copying_estimate g d =
     Inr ((sample (real_of_int (gd_max_graph_degree g)) (real_of_int (gd_n_measurement_steps g)))
            \<lparr> ri_n_nodes := gd_n_nodes g, ri_n_t_gates := gd_n_t_gates g,
              ri_n_rotation_gates := gd_n_rotation_gates g \<rparr>)"

section \<open>Properties\<close>

subsection \<open>Sums over the sample points\<close>

lemma sum_list_affine:
  "(\<Sum>x\<leftarrow>xs. a * x + b) = a * sum_list xs + b * real (length xs)" for a b :: real
  by (induction xs) (simp_all add: algebra_simps)

lemma sum_xy_affine:
  "(\<Sum>(x, y)\<leftarrow>zip xs (map (\<lambda>v. a * v + b) xs). x * y) = a * (\<Sum>x\<leftarrow>xs. x\<^sup>2) + b * sum_list xs" for a b :: real
  by (induction xs) (simp_all add: algebra_simps power2_eq_square)

lemma sum_sq_dev:
  "real (length xs) * (\<Sum>x\<leftarrow>xs. (x - mean xs)\<^sup>2) = real (length xs) * (\<Sum>x\<leftarrow>xs. x\<^sup>2) - (sum_list xs)\<^sup>2"
proof -
  have g: "(\<Sum>x\<leftarrow>xs. (x - k)\<^sup>2) = (\<Sum>x\<leftarrow>xs. x\<^sup>2) - 2 * k * sum_list xs + real (length xs) * k\<^sup>2" for k
    by (induction xs) (simp_all add: algebra_simps power2_eq_square)
  show ?thesis
  proof (cases "xs = []")
    case True
    then show ?thesis by simp
  next
    case False
    then have n: "real (length xs) \<noteq> 0" by simp
    show ?thesis
      unfolding g mean_def using n
      by (simp add: field_simps power2_eq_square)
  qed
qed

lemma sq_dev_zero_all_equal:
  fixes k :: real
  assumes "(\<Sum>x\<leftarrow>xs. (x - k)\<^sup>2) = 0"
  shows "list_all (\<lambda>v. v = k) xs"
proof -
  have "\<forall>t\<in>set (map (\<lambda>x. (x - k)\<^sup>2) xs). t = 0"
    using assms by (subst (asm) sum_list_nonneg_eq_0_iff) auto
  then show ?thesis by (auto simp: list_all_iff)
qed

lemma det_nonzero:
  assumes "\<not> all_equal xs"
  shows "real (length xs) * (\<Sum>x\<leftarrow>xs. x\<^sup>2) - (sum_list xs)\<^sup>2 \<noteq> 0"
proof
  assume z: "real (length xs) * (\<Sum>x\<leftarrow>xs. x\<^sup>2) - (sum_list xs)\<^sup>2 = 0"
  from assms have ne: "xs \<noteq> []" by (auto simp: all_equal_def)
  from z have "real (length xs) * (\<Sum>x\<leftarrow>xs. (x - mean xs)\<^sup>2) = 0"
    by (simp add: sum_sq_dev)
  with ne have "(\<Sum>x\<leftarrow>xs. (x - mean xs)\<^sup>2) = 0" by simp
  then have "list_all (\<lambda>v. v = mean xs) xs" by (rule sq_dev_zero_all_equal)
  then have "all_equal xs" using ne
    by (cases xs) (auto simp: all_equal_def list_all_iff)
  with assms show False by contradiction
qed


lemma finite_values_Fin: "finite_values (map Fin xs) = Some xs"
  by (induction xs) simp_all

lemma all_zero_all_equal: "all_zero xs \<Longrightarrow> all_equal xs"
  by (cases xs) (auto simp: all_zero_def all_equal_def list_all_iff)

lemma slope_affine:
  assumes "\<not> all_equal xs"
  shows "slope xs (map (\<lambda>v. a * v + b) xs) = a"
proof -
  let ?d = "real (length xs) * (\<Sum>x\<leftarrow>xs. x\<^sup>2) - (sum_list xs)\<^sup>2"
  have d: "?d \<noteq> 0" using assms by (rule det_nonzero)
  have "real (length xs) * (\<Sum>(x, y)\<leftarrow>zip xs (map (\<lambda>v. a * v + b) xs). x * y)
          - sum_list xs * sum_list (map (\<lambda>v. a * v + b) xs) = a * ?d"
    unfolding sum_xy_affine sum_list_affine
    by (simp add: algebra_simps power2_eq_square)
  then show ?thesis using d by (simp only: slope_def Let_def length_map) simp
qed

lemma intercept_affine:
  assumes "\<not> all_equal xs"
  shows "intercept xs (map (\<lambda>v. a * v + b) xs) = b"
proof -
  from assms have "xs \<noteq> []" by (auto simp: all_equal_def)
  then show ?thesis
    unfolding intercept_def slope_affine [OF assms] sum_list_affine by simp
qed

lemma residual_sum_affine: "residual_sum a b xs (map (\<lambda>v. a * v + b) xs) = 0"
  unfolding residual_sum_def by (induction xs) simp_all

lemma mean_affine: "xs \<noteq> [] \<Longrightarrow> mean (map (\<lambda>v. a * v + b) xs) = a * mean xs + b"
  unfolding mean_def sum_list_affine by (simp add: field_simps)

lemma sq_dev_affine:
  "(\<Sum>y\<leftarrow>map (\<lambda>v. a * v + b) xs. (y - (a * k + b))\<^sup>2) = a\<^sup>2 * (\<Sum>x\<leftarrow>xs. (x - k)\<^sup>2)" for a b k :: real
  by (induction xs) (simp_all add: algebra_simps power2_eq_square)

lemma var_affine_nonzero:
  assumes "\<not> all_equal xs" and "a \<noteq> 0"
  shows "real (length xs) * np_var (map (\<lambda>v. a * v + b) xs) \<noteq> 0"
proof -
  from assms have ne: "xs \<noteq> []" by (auto simp: all_equal_def)
  have "real (length xs) * (\<Sum>x\<leftarrow>xs. (x - mean xs)\<^sup>2) \<noteq> 0"
    using det_nonzero [OF assms(1)] by (simp add: sum_sq_dev)
  then have "(\<Sum>x\<leftarrow>xs. (x - mean xs)\<^sup>2) \<noteq> 0" by auto
  then have "a\<^sup>2 * (\<Sum>x\<leftarrow>xs. (x - mean xs)\<^sup>2) \<noteq> 0" using assms(2) by simp
  moreover have "np_var (map (\<lambda>v. a * v + b) xs)
      = a\<^sup>2 * (\<Sum>x\<leftarrow>xs. (x - mean xs)\<^sup>2) / real (length xs)"
    by (simp only: np_var_def mean_affine [OF ne] sq_dev_affine length_map)
  ultimately show ?thesis using ne by simp
qed

subsection \<open>What \<^verbatim>\<open>np.polyfit\<close> returns on collinear points\<close>

lemma lstsq_line_affine:
  assumes "3 \<le> length xs" and "\<not> all_equal xs"
  shows "lstsq_line xs (map (\<lambda>v. a * v + b) xs) = Inr ((a, b), [0])"
proof -
  from assms(2) have nz: "\<not> all_zero xs" using all_zero_all_equal by blast
  from assms(1) have n2: "\<not> length xs \<le> 2" by auto
  show ?thesis
    using n2 nz assms(2)
    by (simp add: lstsq_line_def Let_def slope_affine intercept_affine residual_sum_affine)
qed

lemma finite_values_log_nonpositive:
  "\<exists>v\<in>set x. v \<le> 0 \<Longrightarrow> finite_values (map np_log x) = None"
proof (induction x)
  case Nil
  then show ?case by simp
next
  case (Cons u us)
  show ?case
  proof (cases "0 < u")
    case True
    with Cons show ?thesis by (auto simp: np_log_def)
  next
    case False
    then show ?thesis by (simp add: np_log_def)
  qed
qed

lemma finite_values_log_positive:
  "list_all (\<lambda>v. 0 < v) x \<Longrightarrow> finite_values (map np_log x) = Some (map ln x)"
  by (induction x) (simp_all add: np_log_def)

lemma all_equal_map_ln:
  assumes "list_all (\<lambda>v. 0 < v) xs" and "all_equal (map ln xs)"
  shows "all_equal xs"
proof (cases xs)
  case Nil
  then show ?thesis by (simp add: all_equal_def)
next
  case (Cons u us)
  with assms show ?thesis by (auto simp: all_equal_def list_all_iff)
qed

lemma logarithmic_extrapolation_affine:
  assumes "3 \<le> length x" and "list_all (\<lambda>v. 0 < v) x" and "\<not> all_equal x"
    and "a \<noteq> 0" and "0 < q"
  shows "get_logarithmic_extrapolation x (map (\<lambda>v. a * ln v + b) x) q
           = Inr (\<lceil>a * ln q + b\<rceil>, Fin 1)"
proof -
  let ?lx = "map ln x"
  let ?y = "map (\<lambda>v. a * ln v + b) x"
  have y: "?y = map (\<lambda>v. a * v + b) ?lx" by (simp add: comp_def)
  from assms(1) have ne: "x \<noteq> []" by auto
  have nl: "\<not> all_equal ?lx" using all_equal_map_ln [OF assms(2)] assms(3) by blast
  have "lstsq_line ?lx (map (\<lambda>v. a * v + b) ?lx) = Inr ((a, b), [0])"
    using assms(1) nl by (intro lstsq_line_affine) simp_all
  then have pf: "polyfit (map np_log x) ?y = Inr ((a, b), [0])"
    using ne unfolding y by (simp add: polyfit_def finite_values_log_positive [OF assms(2)])
  have "real (length ?lx) * np_var (map (\<lambda>v. a * v + b) ?lx) \<noteq> 0"
    using nl assms(4) by (rule var_affine_nonzero)
  then have v: "real (length ?y) * np_var ?y \<noteq> 0" unfolding y by simp
  show ?thesis
    using v assms(5)
    by (simp only: get_logarithmic_extrapolation_def Let_def pf sum.case prod.case list.case
        np_div_def np_log_def)
       simp
qed

lemma ln_4: "ln (4 :: real) = 2 * ln 2"
proof -
  have "ln ((2 :: real) ^ 2) = 2 * ln 2" by (subst ln_realpow) simp_all
  then show ?thesis by simp
qed

lemma ln_8: "ln (8 :: real) = 3 * ln 2"
proof -
  have "ln ((2 :: real) ^ 3) = 3 * ln 2" by (subst ln_realpow) simp_all
  then show ?thesis by simp
qed

subsection \<open>The projection of the logarithmic fit\<close>

text \<open>
  Claim C2 at a concrete input: measurement steps \<open>1.000001, 2.000001, 3.000001\<close> at the
  step counts 1, 2, 4 and the target 8. The fitted curve is \<open>ln x / ln 2 + 1.000001\<close>, its
  value at 8 is \<open>4.000001\<close>. \<^verbatim>\<open>_get_logarithmic_extrapolation\<close> takes the ceiling of that
  value and returns 5; rounding to 5 decimal places first, as the linear fit does, gives 4.
\<close>

theorem logarithmic_projection_not_rounded:
  "get_logarithmic_extrapolation [1, 2, 4]
       [1000001 / 1000000, 2000001 / 1000000, 3000001 / 1000000] 8
     = Inr (5, Fin 1)
   \<and> \<lceil>py_round (1 / ln 2 * ln 8 + 1000001 / 1000000) 5\<rceil> = 4"
proof -
  have "get_logarithmic_extrapolation [1, 2, 4]
          (map (\<lambda>v. (1 / ln 2) * ln v + 1000001 / 1000000) [1, 2, 4]) 8
        = Inr (\<lceil>(1 / ln 2) * ln 8 + 1000001 / 1000000 :: real\<rceil>, Fin 1)"
    by (rule logarithmic_extrapolation_affine) (simp_all add: all_equal_def)
  moreover have "map (\<lambda>v. (1 / ln 2) * ln v + 1000001 / 1000000) [1, 2, 4 :: real]
      = [1000001 / 1000000, 2000001 / 1000000, 3000001 / 1000000]"
    by (simp add: ln_4)
  moreover have "(1 / ln 2) * ln 8 + 1000001 / 1000000 = (4000001 / 1000000 :: real)"
    by (simp add: ln_8)
  moreover have "\<lceil>4000001 / 1000000 :: real\<rceil> = 5"
    by (simp add: ceiling_eq_iff)
  moreover have "\<lceil>py_round (4000001 / 1000000) 5\<rceil> = 4"
    by (simp add: py_round_def rint_def)
  ultimately show ?thesis by (simp only:)
qed

subsection \<open>Non-positive independent values under the logarithmic fit\<close>

text \<open>
  Claim C3, as the code has it. When an independent value is zero or negative,
  \<^verbatim>\<open>np.log\<close> raises nothing: it yields \<^verbatim>\<open>-inf\<close> or \<^verbatim>\<open>nan\<close>. The fit is then
  attempted on the transformed values and it is \<^verbatim>\<open>np.polyfit\<close> that fails: with a
  \<^verbatim>\<open>TypeError\<close> when the two sequences differ in length, with \<^verbatim>\<open>LinAlgError\<close> otherwise.
\<close>

theorem logarithmic_fit_nonpositive:
  assumes "\<exists>v\<in>set x. v \<le> 0"
  shows "get_logarithmic_extrapolation x y q =
           (if length x \<noteq> length y
            then Inl (TypeError ''expected x and y to have same length'')
            else Inl LinAlgError)"
proof -
  from assms have "x \<noteq> []" by auto
  then show ?thesis
    by (simp add: get_logarithmic_extrapolation_def polyfit_def
        finite_values_log_nonpositive [OF assms])
qed

theorem logarithmic_fit_nonpositive_witness:
  "(\<exists>v\<in>set [0, 1, 2 :: real]. v \<le> 0)
     \<and> get_logarithmic_extrapolation [0, 1, 2] [1, 2, 3] 10 = Inl LinAlgError"
  using logarithmic_fit_nonpositive [of "[0, 1, 2]" "[1, 2, 3]" 10] by simp

text \<open>
  Claim C3 as stated, at the independent values 0, 1, 2: the transformation returns an
  array, and the error is the one of the fit, not a domain error of the transformation.
\<close>

theorem logarithmic_fit_zero_no_domain_error:
  "map np_log [0, 1, 2] = [NInf, Fin 0, Fin (ln 2)]
     \<and> get_logarithmic_extrapolation [0, 1, 2] [1, 2, 3] 10 = Inl LinAlgError"
  by (simp add: get_logarithmic_extrapolation_def polyfit_def np_log_def)

subsection \<open>Two sample points\<close>

lemma lstsq_line_two_points:
  assumes "length xs = 2" and "length ys = 2" and "\<not> all_equal xs"
  shows "\<exists>m c. lstsq_line xs ys = Inr ((m, c), [])"
proof -
  from assms(3) have nz: "\<not> all_zero xs" using all_zero_all_equal by blast
  show ?thesis using nz assms by (simp add: lstsq_line_def Let_def)
qed

lemma two_distinct_not_all_equal: "length xs = 2 \<Longrightarrow> distinct xs \<Longrightarrow> \<not> all_equal xs"
  by (cases xs; cases "tl xs") (auto simp: all_equal_def)

lemma map_ln_not_all_equal:
  assumes "length xs = 2" and "distinct xs" and "list_all (\<lambda>v. 0 < v) xs"
  shows "\<not> all_equal (map ln xs)"
  using assms by (cases xs; cases "tl xs") (auto simp: all_equal_def)

text \<open>
  Claim C4, as the code has it. With exactly two sample points at distinct positive
  independent values no fit succeeds: \<^verbatim>\<open>np.polyfit\<close> returns an empty array of residuals
  (there are no more points than coefficients), and both \<^verbatim>\<open>_get_linear_extrapolation\<close>
  and \<^verbatim>\<open>_get_logarithmic_extrapolation\<close> fail with an \<^verbatim>\<open>IndexError\<close> when they read
  its first entry. No R-squared is returned.
\<close>

theorem two_point_fit_fails:
  assumes "length x = 2" and "length y = 2" and "distinct x" and "list_all (\<lambda>v. 0 < v) x"
  shows "get_linear_extrapolation x y q = Inl IndexError
           \<and> get_logarithmic_extrapolation x y q = Inl IndexError"
proof -
  from assms(1) have ne: "x \<noteq> []" by auto
  obtain m c where lin: "lstsq_line x y = Inr ((m, c), [])"
    using lstsq_line_two_points [OF assms(1,2) two_distinct_not_all_equal [OF assms(1,3)]]
    by blast
  have "length (map ln x) = 2" using assms(1) by simp
  then obtain m' c' where lg: "lstsq_line (map ln x) y = Inr ((m', c'), [])"
    using lstsq_line_two_points [OF _ assms(2) map_ln_not_all_equal [OF assms(1,3,4)]]
    by blast
  have "get_linear_extrapolation x y q = Inl IndexError"
    using ne assms(1,2)
    by (simp add: get_linear_extrapolation_def polyfit_def finite_values_Fin lin)
  moreover have "get_logarithmic_extrapolation x y q = Inl IndexError"
    using ne assms(1,2)
    by (simp add: get_logarithmic_extrapolation_def polyfit_def
        finite_values_log_positive [OF assms(4)] lg)
  ultimately show ?thesis by simp
qed

theorem two_point_fit_fails_witness:
  "length [10, 20 :: real] = 2 \<and> length [100, 200 :: real] = 2 \<and> distinct [10, 20 :: real]
     \<and> list_all (\<lambda>v. 0 < v) [10, 20 :: real]
     \<and> get_linear_extrapolation [10, 20] [100, 200] 1000 = Inl IndexError
     \<and> get_logarithmic_extrapolation [10, 20] [100, 200] 1000 = Inl IndexError"
  using two_point_fit_fails [of "[10, 20]" "[100, 200]" 1000] by simp

text \<open>
  Claim C4 as stated, at the step counts 10 and 20: neither fit returns an R-squared.
\<close>

theorem two_point_fit_index_error:
  "get_linear_extrapolation [10, 20] [100, 200] 1000 = Inl IndexError
     \<and> get_logarithmic_extrapolation [10, 20] [50, 107 / 2] 1000 = Inl IndexError"
  by (simp add: get_linear_extrapolation_def get_logarithmic_extrapolation_def polyfit_def
      lstsq_line_def all_zero_def all_equal_def Let_def np_log_def)

subsection \<open>Dependent values of zero variance\<close>






subsection \<open>The sample data evaluated\<close>

lemma degree_fit_example:
  "get_linear_extrapolation [1, 2, 4] [10, 20, 40] 8 = Inr (80, Fin 1)"
  by (simp add: get_linear_extrapolation_def polyfit_def lstsq_line_def all_zero_def
      all_equal_def Let_def slope_def intercept_def residual_sum_def np_var_def mean_def
      np_div_def py_round_def rint_def power2_eq_square)

lemma steps_log_fit_example:
  "get_logarithmic_extrapolation [1, 2, 4] [1, 2, 4] 8 = Inr (6, Fin (27 / 28))"
proof -
  define L :: real where "L = ln 2"
  have L: "0 < L" by (simp add: L_def)
  have lx: "map np_log [1, 2, 4] = [Fin 0, Fin L, Fin (2 * L)]"
    by (simp add: np_log_def ln_4 L_def)
  have ne: "\<not> all_zero [0, L, 2 * L]" "\<not> all_equal [0, L, 2 * L]"
    using L by (simp_all add: all_zero_def all_equal_def)
  have m: "slope [0, L, 2 * L] [1, 2, 4] = 3 / (2 * L)"
    unfolding slope_def Let_def using L by (simp add: power2_eq_square field_simps)
  have c: "intercept [0, L, 2 * L] [1, 2, 4] = 5 / 6"
    unfolding intercept_def m using L by (simp add: field_simps)
  have r: "residual_sum (3 / (2 * L)) (5 / 6) [0, L, 2 * L] [1, 2, 4] = 1 / 6"
    unfolding residual_sum_def using L by (simp add: power2_eq_square field_simps)
  have pf: "polyfit (map np_log [1, 2, 4]) [1, 2, 4] = Inr ((3 / (2 * L), 5 / 6), [1 / 6])"
    unfolding lx using ne by (simp add: polyfit_def lstsq_line_def Let_def m c r)
  have v: "np_var [1, 2, 4] = 14 / 9"
    by (simp add: np_var_def mean_def power2_eq_square field_simps)
  have l8: "np_log 8 = Fin (3 * L)" by (simp add: np_log_def ln_8 L_def)
  have p: "3 / (2 * L) * (3 * L) + 5 / 6 = (16 / 3 :: real)"
    using L by (simp add: field_simps)
  have ce: "\<lceil>16 / 3 :: real\<rceil> = 6" by (simp add: ceiling_eq_iff)
  have "np_add (np_mul (3 / (2 * L)) (np_log 8)) (5 / 6) = Fin (16 / 3)"
    unfolding l8 by (simp only: np_mul.simps np_add.simps p)
  then show ?thesis
    unfolding get_logarithmic_extrapolation_def Let_def pf
    by (simp add: v np_div_def ce)
qed

lemma graph_data_log_example:
  "get_extrapolated_graph_data (estimator ''logarithmic'') samples target
     = Inr \<lparr> gd_max_graph_degree = 80, gd_n_nodes = 12, gd_n_t_gates = 7,
             gd_n_rotation_gates = 5, gd_n_measurement_steps = 6,
             max_graph_degree_r_squared = Fin 1,
             gd_n_measurement_steps_r_squared = Fin (27 / 28) \<rparr>"
  by (simp add: get_extrapolated_graph_data_def estimator_def samples_def sample_def target_def
      degree_fit_example steps_log_fit_example)

lemma estimate_copying_example:
  "estimate_via_extrapolation copying_estimate (estimator ''logarithmic'') description samples
     = Inr \<lparr> ri_n_logical_qubits = 80, ri_n_measurement_steps = 6, ri_n_nodes = 100,
             ri_n_t_gates = 7, ri_n_rotation_gates = 5, ri_code_distance = 0,
             ri_logical_error_rate = 0, ri_total_time_in_seconds = 0, ri_n_physical_qubits = 0,
             ri_decoder_total_energy_consumption = None, ri_decoder_power = None,
             ri_decoder_area = None, ri_max_decodable_distance = None,
             n_logical_qubits_r_squared = Fin 1, n_measurement_steps_r_squared = Fin (27 / 28),
             data_used_to_extrapolate = samples, steps_to_extrapolate_to = 8 \<rparr>"
  by (simp add: estimate_via_extrapolation_def description_def graph_data_log_example
      copying_estimate_def sample_def)
     (simp add: target_def)

subsection \<open>The selector of the curve family\<close>

text \<open>
  Claim C5, as the code has it. For a fit type other than \<open>logarithmic\<close> and \<open>linear\<close>,
  \<^verbatim>\<open>_get_extrapolated_graph_data\<close> first runs the linear fit of the degree metric. An
  exception of that fit is the result; once that fit has succeeded, the result is a
  \<^verbatim>\<open>ValueError\<close> whose message names the two accepted values and the configured one.
\<close>

theorem unknown_fit_type_value_error:
  assumes "n_measurement_steps_fit_type self \<noteq> ''logarithmic''"
    and "n_measurement_steps_fit_type self \<noteq> ''linear''"
  shows "get_extrapolated_graph_data self data prog =
           (case get_linear_extrapolation (map real_of_int (steps_to_extrapolate_from self))
                   (map ri_n_logical_qubits data) (real_of_int (qp_steps prog)) of
              Inl e \<Rightarrow> Inl e
            | Inr degree_fit \<Rightarrow>
                Inl (ValueError
                  (''n_measurement_steps_fit_type must be either 'logarithmic' or 'linear', not ''
                     @ n_measurement_steps_fit_type self)))"
  using assms
  by (simp add: get_extrapolated_graph_data_def fit_type_message_def split: sum.splits)

theorem unknown_fit_type_value_error_witness:
  "n_measurement_steps_fit_type (estimator ''exponential'') \<noteq> ''logarithmic''
     \<and> n_measurement_steps_fit_type (estimator ''exponential'') \<noteq> ''linear''
     \<and> get_extrapolated_graph_data (estimator ''exponential'') samples target
         = Inl (ValueError
             ''n_measurement_steps_fit_type must be either 'logarithmic' or 'linear', not exponential'')"
  using unknown_fit_type_value_error [of "estimator ''exponential''" samples target]
  by (simp add: estimator_def samples_def sample_def target_def degree_fit_example)

text \<open>
  Claim C5 as stated, with the fit type \<open>exponential\<close> and two samples: the degree fit
  runs first and its \<^verbatim>\<open>IndexError\<close> is the result, not the configuration error.
\<close>

theorem unknown_fit_type_index_error:
  "get_extrapolated_graph_data
     \<lparr> steps_to_extrapolate_from = [1, 2], n_measurement_steps_fit_type = ''exponential'' \<rparr>
     [sample 10 1, sample 20 2] target = Inl IndexError"
  by (simp add: get_extrapolated_graph_data_def sample_def target_def
      get_linear_extrapolation_def polyfit_def lstsq_line_def all_zero_def all_equal_def Let_def)

subsection \<open>The degree metric\<close>



subsection \<open>The report of \<^verbatim>\<open>estimate_via_extrapolation\<close>\<close>

lemma graph_data_fields:
  assumes "get_extrapolated_graph_data self data prog = Inr g"
  shows "gd_n_nodes g = qp_n_t_gates prog + qp_n_rotation_gates prog"
    and "gd_n_t_gates g = qp_n_t_gates prog"
    and "gd_n_rotation_gates g = qp_n_rotation_gates prog"
  using assms
  by (auto simp: get_extrapolated_graph_data_def Let_def split: sum.splits if_splits)

lemma estimate_success:
  assumes "estimate_via_extrapolation downstream self algorithm_description data = Inr report"
  obtains prog g resource_info where
    "program algorithm_description = IsQuantumProgram prog"
    "get_extrapolated_graph_data self data prog = Inr g"
    "downstream g algorithm_description = Inr resource_info"
    "report = \<lparr> ri_n_logical_qubits = ri_n_logical_qubits resource_info,
                 ri_n_measurement_steps = ri_n_measurement_steps resource_info,
                 ri_n_nodes = qp_n_nodes prog,
                 ri_n_t_gates = ri_n_t_gates resource_info,
                 ri_n_rotation_gates = ri_n_rotation_gates resource_info,
                 ri_code_distance = ri_code_distance resource_info,
                 ri_logical_error_rate = ri_logical_error_rate resource_info,
                 ri_total_time_in_seconds = ri_total_time_in_seconds resource_info,
                 ri_n_physical_qubits = ri_n_physical_qubits resource_info,
                 ri_decoder_total_energy_consumption =
                   ri_decoder_total_energy_consumption resource_info,
                 ri_decoder_power = ri_decoder_power resource_info,
                 ri_decoder_area = ri_decoder_area resource_info,
                 ri_max_decodable_distance = ri_max_decodable_distance resource_info,
                 n_logical_qubits_r_squared = max_graph_degree_r_squared g,
                 n_measurement_steps_r_squared = gd_n_measurement_steps_r_squared g,
                 data_used_to_extrapolate = data,
                 steps_to_extrapolate_to = qp_steps prog \<rparr>"
  using assms
  by (auto simp: estimate_via_extrapolation_def split: program_object.splits sum.splits)

lemma graph_data_fits:
  assumes "get_extrapolated_graph_data self data prog = Inr g"
  shows "get_linear_extrapolation (map real_of_int (steps_to_extrapolate_from self))
             (map ri_n_logical_qubits data) (real_of_int (qp_steps prog))
           = Inr (gd_max_graph_degree g, max_graph_degree_r_squared g)"
    and "n_measurement_steps_fit_type self = ''logarithmic''
           \<or> n_measurement_steps_fit_type self = ''linear''"
    and "(if n_measurement_steps_fit_type self = ''logarithmic''
          then get_logarithmic_extrapolation (map real_of_int (steps_to_extrapolate_from self))
                 (map ri_n_measurement_steps data) (real_of_int (qp_steps prog))
          else get_linear_extrapolation (map real_of_int (steps_to_extrapolate_from self))
                 (map ri_n_measurement_steps data) (real_of_int (qp_steps prog)))
           = Inr (gd_n_measurement_steps g, gd_n_measurement_steps_r_squared g)"
  using assms
  by (auto simp: get_extrapolated_graph_data_def Let_def split: sum.splits if_splits)

text \<open>
  Claim C8. The inherited \<^verbatim>\<open>_estimate_resources_from_graph_data\<close> is not part of the
  source file; the graph data it is given carry the target program's exact gate counts,
  and it is taken to report the gate counts of the graph data it is given. Then, in the
  report of every successful call, the node count and the two gate counts are the target
  program's own, the list of samples is the input list, the target step count is the
  program's, the R-squared of the logical qubits is the one that the linear fit of the
  degree metric returned, and the R-squared of the measurement steps is the one that the
  configured fit of the measurement steps returned.
\<close>

theorem report_of_successful_call:
  assumes "estimate_via_extrapolation downstream self algorithm_description data = Inr report"
    and "\<And>g resource_info.
           downstream g algorithm_description = Inr resource_info
           \<Longrightarrow> ri_n_t_gates resource_info = gd_n_t_gates g
               \<and> ri_n_rotation_gates resource_info = gd_n_rotation_gates g"
  shows "\<exists>prog degree_projection steps_projection.
           program algorithm_description = IsQuantumProgram prog
         \<and> ri_n_nodes report = qp_n_nodes prog
         \<and> ri_n_t_gates report = qp_n_t_gates prog
         \<and> ri_n_rotation_gates report = qp_n_rotation_gates prog
         \<and> data_used_to_extrapolate report = data
         \<and> steps_to_extrapolate_to report = qp_steps prog
         \<and> get_linear_extrapolation (map real_of_int (steps_to_extrapolate_from self))
               (map ri_n_logical_qubits data) (real_of_int (qp_steps prog))
             = Inr (degree_projection, n_logical_qubits_r_squared report)
         \<and> (n_measurement_steps_fit_type self = ''logarithmic''
              \<or> n_measurement_steps_fit_type self = ''linear'')
         \<and> (if n_measurement_steps_fit_type self = ''logarithmic''
             then get_logarithmic_extrapolation (map real_of_int (steps_to_extrapolate_from self))
                    (map ri_n_measurement_steps data) (real_of_int (qp_steps prog))
             else get_linear_extrapolation (map real_of_int (steps_to_extrapolate_from self))
                    (map ri_n_measurement_steps data) (real_of_int (qp_steps prog)))
             = Inr (steps_projection, n_measurement_steps_r_squared report)"
proof -
  from assms(1) obtain prog g resource_info where
    p: "program algorithm_description = IsQuantumProgram prog"
    and g: "get_extrapolated_graph_data self data prog = Inr g"
    and d: "downstream g algorithm_description = Inr resource_info"
    and r: "report = \<lparr> ri_n_logical_qubits = ri_n_logical_qubits resource_info,
                 ri_n_measurement_steps = ri_n_measurement_steps resource_info,
                 ri_n_nodes = qp_n_nodes prog,
                 ri_n_t_gates = ri_n_t_gates resource_info,
                 ri_n_rotation_gates = ri_n_rotation_gates resource_info,
                 ri_code_distance = ri_code_distance resource_info,
                 ri_logical_error_rate = ri_logical_error_rate resource_info,
                 ri_total_time_in_seconds = ri_total_time_in_seconds resource_info,
                 ri_n_physical_qubits = ri_n_physical_qubits resource_info,
                 ri_decoder_total_energy_consumption =
                   ri_decoder_total_energy_consumption resource_info,
                 ri_decoder_power = ri_decoder_power resource_info,
                 ri_decoder_area = ri_decoder_area resource_info,
                 ri_max_decodable_distance = ri_max_decodable_distance resource_info,
                 n_logical_qubits_r_squared = max_graph_degree_r_squared g,
                 n_measurement_steps_r_squared = gd_n_measurement_steps_r_squared g,
                 data_used_to_extrapolate = data,
                 steps_to_extrapolate_to = qp_steps prog \<rparr>"
    by (rule estimate_success)
  from assms(2) [OF d] graph_data_fields(2,3) [OF g]
  have gates: "ri_n_t_gates report = qp_n_t_gates prog"
    "ri_n_rotation_gates report = qp_n_rotation_gates prog"
    by (simp_all add: r)
  have rest: "ri_n_nodes report = qp_n_nodes prog"
    "data_used_to_extrapolate report = data"
    "steps_to_extrapolate_to report = qp_steps prog"
    "n_logical_qubits_r_squared report = max_graph_degree_r_squared g"
    "n_measurement_steps_r_squared report = gd_n_measurement_steps_r_squared g"
    by (simp_all add: r)
  from graph_data_fits [OF g] p gates rest show ?thesis
    by (intro exI [of _ prog] exI [of _ "gd_max_graph_degree g"]
        exI [of _ "gd_n_measurement_steps g"]) simp
qed

theorem report_of_successful_call_witness:
  "estimate_via_extrapolation copying_estimate (estimator ''logarithmic'') description samples
     = Inr \<lparr> ri_n_logical_qubits = 80, ri_n_measurement_steps = 6, ri_n_nodes = 100,
             ri_n_t_gates = 7, ri_n_rotation_gates = 5, ri_code_distance = 0,
             ri_logical_error_rate = 0, ri_total_time_in_seconds = 0, ri_n_physical_qubits = 0,
             ri_decoder_total_energy_consumption = None, ri_decoder_power = None,
             ri_decoder_area = None, ri_max_decodable_distance = None,
             n_logical_qubits_r_squared = Fin 1, n_measurement_steps_r_squared = Fin (27 / 28),
             data_used_to_extrapolate = samples, steps_to_extrapolate_to = 8 \<rparr>
   \<and> program description = IsQuantumProgram target
   \<and> qp_n_nodes target = 100 \<and> qp_n_t_gates target = 7 \<and> qp_n_rotation_gates target = 5
   \<and> qp_steps target = 8
   \<and> get_linear_extrapolation (map real_of_int (steps_to_extrapolate_from (estimator ''logarithmic'')))
        (map ri_n_logical_qubits samples) (real_of_int (qp_steps target)) = Inr (80, Fin 1)
   \<and> get_logarithmic_extrapolation
        (map real_of_int (steps_to_extrapolate_from (estimator ''logarithmic'')))
        (map ri_n_measurement_steps samples) (real_of_int (qp_steps target))
      = Inr (6, Fin (27 / 28))"
proof -
  have pass: "ri_n_t_gates resource_info = gd_n_t_gates g
                \<and> ri_n_rotation_gates resource_info = gd_n_rotation_gates g"
    if "copying_estimate g description = Inr resource_info" for g resource_info
    using that by (auto simp: copying_estimate_def)
  from report_of_successful_call [OF estimate_copying_example pass]
  show ?thesis
    using estimate_copying_example
    by (auto simp: description_def estimator_def samples_def sample_def
        degree_fit_example steps_log_fit_example)
qed

subsection \<open>The assertion at the entry point\<close>

text \<open>
  Claim C9. When the program of the algorithm description is not a
  \<^verbatim>\<open>QuantumProgram\<close>, \<^verbatim>\<open>estimate_via_extrapolation\<close> fails with an
  \<^verbatim>\<open>AssertionError\<close>, whatever the estimator, the downstream step and the samples are: no
  fit is attempted.
\<close>

theorem not_quantum_program_assertion:
  assumes "program algorithm_description = OtherObject obj"
  shows "estimate_via_extrapolation downstream self algorithm_description data = Inl AssertionError"
  using assms by (simp add: estimate_via_extrapolation_def)

theorem not_quantum_program_assertion_witness:
  "program \<lparr> program = OtherObject (), remainder = () \<rparr> = OtherObject ()
   \<and> estimate_via_extrapolation copying_estimate (estimator ''exponential'')
        \<lparr> program = OtherObject (), remainder = () \<rparr> [] = Inl AssertionError"
  using not_quantum_program_assertion
    [of "\<lparr> program = OtherObject (), remainder = () \<rparr>" "()" copying_estimate
        "estimator ''exponential''" "[]"]
  by simp

subsection \<open>The node count handed to the downstream step\<close>

text \<open>
  Claim C10. In every successful call the graph data that the downstream step received
  has \<^verbatim>\<open>n_nodes\<close> equal to the target program's number of T gates plus its number of
  rotation gates.
\<close>

theorem downstream_graph_data_n_nodes:
  assumes "estimate_via_extrapolation downstream self algorithm_description data = Inr report"
  shows "\<exists>prog g resource_info.
           program algorithm_description = IsQuantumProgram prog
         \<and> get_extrapolated_graph_data self data prog = Inr g
         \<and> downstream g algorithm_description = Inr resource_info
         \<and> gd_n_nodes g = qp_n_t_gates prog + qp_n_rotation_gates prog"
proof -
  from assms obtain prog g resource_info where
    "program algorithm_description = IsQuantumProgram prog"
    "get_extrapolated_graph_data self data prog = Inr g"
    "downstream g algorithm_description = Inr resource_info"
    by (rule estimate_success)
  then show ?thesis using graph_data_fields(1) by blast
qed

theorem downstream_graph_data_n_nodes_witness:
  "estimate_via_extrapolation copying_estimate (estimator ''logarithmic'') description samples
     = Inr \<lparr> ri_n_logical_qubits = 80, ri_n_measurement_steps = 6, ri_n_nodes = 100,
             ri_n_t_gates = 7, ri_n_rotation_gates = 5, ri_code_distance = 0,
             ri_logical_error_rate = 0, ri_total_time_in_seconds = 0, ri_n_physical_qubits = 0,
             ri_decoder_total_energy_consumption = None, ri_decoder_power = None,
             ri_decoder_area = None, ri_max_decodable_distance = None,
             n_logical_qubits_r_squared = Fin 1, n_measurement_steps_r_squared = Fin (27 / 28),
             data_used_to_extrapolate = samples, steps_to_extrapolate_to = 8 \<rparr>
   \<and> (\<exists>g resource_info.
         get_extrapolated_graph_data (estimator ''logarithmic'') samples target = Inr g
       \<and> copying_estimate g description = Inr resource_info
       \<and> gd_n_nodes g = 12)"
  using estimate_copying_example
    downstream_graph_data_n_nodes [OF estimate_copying_example]
  by (auto simp: description_def target_def)

end
